theory Spec2Isabelle
  imports Main "HOL-Library.Sublist"
begin

section \<open>The server as the modules observe it\<close>

text \<open>
  Both modules talk to the server through \<open>ch_connect.execute\<close>. The read-only queries
  select from four system tables; the record below holds the columns those queries read,
  row by row, in the order the server returns them:
  \<^item> \<open>system.users\<close>: \<open>name\<close>;
  \<^item> \<open>system.role_grants\<close>: \<open>user_name\<close>, \<open>granted_role_name\<close>;
  \<^item> \<open>system.settings_profile_elements\<close>: \<open>user_name\<close>, \<open>inherit_profile\<close>;
  \<^item> \<open>system.quotas\<close>: \<open>name\<close>, \<open>apply_to_list\<close>.
  The queries are read at their meaning for names without quote characters. A string of
  the program is represented by the bytes of its UTF-8 text: equality, membership in a
  list, concatenation and \<open>join\<close> of strings are those of the byte lists.
\<close>

record server =
  system_users :: "string list"
  system_role_grants :: "(string \<times> string) list"
  system_settings_profile_elements :: "(string \<times> string) list"
  system_quotas :: "(string \<times> string list) list"

text \<open>
  A mutating statement is handed to the server, which answers with its next state or
  raises. What a statement does to the server is the server's business, so the executing
  side of the connection is a parameter of every function that runs statements.
\<close>

datatype exn = ServerException string | PyException string

type_synonym gateway = "string \<Rightarrow> server \<Rightarrow> exn + server"

text \<open>\<open>[ch_connect.execute(query) for query in query_list]\<close>: in order, stopping at the
  first statement that raises. The exception then travels together with the server as the
  statements before it have left it: nothing is rolled back.\<close>

type_synonym raised = "exn \<times> server"

fun execute_all :: "gateway \<Rightarrow> string list \<Rightarrow> server \<Rightarrow> raised + server" where
  "execute_all exec [] s = Inr s"
| "execute_all exec (query # rest) s =
     (case exec query s of Inl e \<Rightarrow> Inl (e, s) | Inr s' \<Rightarrow> execute_all exec rest s')"

section \<open>String helpers of the Python runtime\<close>

text \<open>\<open>sep.join(xs)\<close>.\<close>

fun join :: "string \<Rightarrow> string list \<Rightarrow> string" where
  "join sep [] = []"
| "join sep [x] = x"
| "join sep (x # y # ys) = x @ sep @ join sep (y # ys)"

text \<open>
  \<open>str.upper()\<close> belongs to the Python runtime and follows the Unicode case mappings. The
  functions below that call it take it as their parameter \<open>upper\<close>, and what is proved
  about them holds for every such function. On ASCII text \<open>str.upper()\<close> maps the 26
  lower-case letters and keeps every other character: this is \<open>ascii_upper\<close>, which
  the worked examples, whose names are all ASCII, pass for \<open>upper\<close>.
\<close>

definition ascii_upper_char :: "char \<Rightarrow> char" where
  "ascii_upper_char c =
     (case map_of (zip ''abcdefghijklmnopqrstuvwxyz'' ''ABCDEFGHIJKLMNOPQRSTUVWXYZ'') c of
        Some u \<Rightarrow> u
      | None \<Rightarrow> c)"

definition ascii_upper :: "string \<Rightarrow> string" where
  "ascii_upper s = map ascii_upper_char s"

text \<open>The single quote that the statements put around the grantee.\<close>

abbreviation apostrophe :: string where
  "apostrophe \<equiv> [CHR 0x27]"

section \<open>clickhouse\_grants.py\<close>

subsection \<open>Observation\<close>

definition ch_user_exists :: "server \<Rightarrow> string \<Rightarrow> bool" where
  "ch_user_exists ch_connect grantee =
     (0 < length (filter (\<lambda>name. name = grantee) (system_users ch_connect)))"

text \<open>The loop \<open>for role in roles_list: if role not in user_roles: user_has_roles = False\<close>,
  with the flag as accumulator.\<close>

fun has_roles_loop :: "string list \<Rightarrow> string list \<Rightarrow> bool \<Rightarrow> bool" where
  "has_roles_loop [] user_roles user_has_roles = user_has_roles"
| "has_roles_loop (role # rest) user_roles user_has_roles =
     has_roles_loop rest user_roles
       (if role \<notin> set user_roles then False else user_has_roles)"

definition granted_role_names :: "server \<Rightarrow> string \<Rightarrow> string list" where
  "granted_role_names ch_connect grantee =
     map snd (filter (\<lambda>row. fst row = grantee) (system_role_grants ch_connect))"

text \<open>
  \<open>get_user_roles\<close> of the grants module. For a grantee that is not in \<open>system.users\<close>
  the source evaluates \<open>module.fail_json(...)\<close>, but \<open>module\<close> is a local variable of
  \<open>main\<close> and is not bound here, so the call raises a \<open>NameError\<close>.
\<close>

definition get_user_roles ::
  "server \<Rightarrow> string \<Rightarrow> string list \<Rightarrow> exn + (string list \<times> bool)" where
  "get_user_roles ch_connect grantee roles_list =
     (if \<not> ch_user_exists ch_connect grantee
      then Inl (PyException ''name 'module' is not defined'')
      else
        let user_roles = granted_role_names ch_connect grantee;
            user_has_roles = has_roles_loop roles_list user_roles True
        in Inr (user_roles, user_has_roles))"

subsection \<open>Results\<close>

text \<open>The dictionaries the functions return. In the grants module \<open>user_status\<close> is the
  dictionary with the keys \<open>user_roles\<close> and \<open>user_has_roles\<close>, set on the
  non-revoke path only; a key that was never set is \<open>None\<close>.\<close>

record result =
  changed :: bool
  run_queries :: "string list"

record 'st status_result = result +
  user_status :: 'st

record roles_result = "(string list \<times> bool) option status_result" +
  grant_roles :: "string list"
  revoke_grants :: bool
  replace_grants :: bool

record grants_result = result +
  msg :: "string option"
  error :: "string option"
  failed :: bool

subsection \<open>Role-assignment reconciliation\<close>

text \<open>The revoke loop: one statement for every listed role the grantee holds.\<close>

fun revoke_loop :: "string \<Rightarrow> string list \<Rightarrow> string list \<Rightarrow> string list \<Rightarrow> string list" where
  "revoke_loop grantee user_roles [] query_list = query_list"
| "revoke_loop grantee user_roles (role # rest) query_list =
     revoke_loop grantee user_roles rest
       (if role \<in> set user_roles
        then query_list @ [''REVOKE '' @ role @ '' from '' @ apostrophe @ grantee @ apostrophe]
        else query_list)"

text \<open>The role-creation loop: one statement for every listed role.\<close>

fun create_loop :: "string list \<Rightarrow> string list \<Rightarrow> string list" where
  "create_loop [] query_list = query_list"
| "create_loop (role # rest) query_list =
     create_loop rest (query_list @ [''CREATE ROLE IF NOT EXISTS '' @ role])"

text \<open>The statements \<open>grant_roles_func\<close> collects before it runs them.\<close>

definition roles_query_list ::
  "string \<Rightarrow> string list \<Rightarrow> bool \<Rightarrow> bool \<Rightarrow> bool \<Rightarrow> string list \<Rightarrow> bool \<Rightarrow> string list" where
  "roles_query_list grantee roles_list roles_init replace revoke user_roles user_has_roles =
     (if revoke then revoke_loop grantee user_roles roles_list []
      else
        let query_list =
              (if roles_init \<and> \<not> user_has_roles then create_loop roles_list [] else [])
        in if replace
           then query_list @
                  [''GRANT '' @ join '', '' roles_list @ '' to '' @ apostrophe @ grantee @
                   apostrophe @ '' WITH REPLACE OPTION'']
           else if \<not> user_has_roles
           then query_list @
                  [''GRANT '' @ join '', '' roles_list @ '' to '' @ apostrophe @ grantee @
                   apostrophe]
           else query_list)"

definition grant_roles_func ::
  "gateway \<Rightarrow> server \<Rightarrow> string \<Rightarrow> string list \<Rightarrow> bool \<Rightarrow> bool \<Rightarrow> bool \<Rightarrow>
   raised + (roles_result \<times> server)" where
  "grant_roles_func exec ch_connect grantee roles_list roles_init replace revoke =
     (case get_user_roles ch_connect grantee roles_list of
        Inl e \<Rightarrow> Inl (e, ch_connect)
      | Inr (user_roles, user_has_roles) \<Rightarrow>
          let query_list =
                roles_query_list grantee roles_list roles_init replace revoke
                  user_roles user_has_roles;
              return_list =
                \<lparr>changed = False, run_queries = query_list,
                 user_status = (if revoke then None else Some (user_roles, user_has_roles)),
                 grant_roles = roles_list, revoke_grants = revoke, replace_grants = replace\<rparr>
          in if query_list \<noteq> []
             then (case execute_all exec query_list ch_connect of
                     Inl raised \<Rightarrow> Inl raised
                   | Inr ch_connect' \<Rightarrow> Inr (return_list\<lparr>changed := True\<rparr>, ch_connect'))
             else Inr (return_list, ch_connect))"

subsection \<open>Privilege-grant reconciliation\<close>

definition system_level_grants :: "string list" where
  "system_level_grants =
     [''CREATE FUNCTION'', ''DROP FUNCTION'', ''RELOAD DICTIONARY'', ''KILL QUERY'',
      ''MYSQL'', ''CLUSTER'']"

definition database_level_grants :: "string list" where
  "database_level_grants = [''CREATE DATABASE'', ''DROP DATABASE'']"

definition table_level_grants :: "string list" where
  "table_level_grants =
     [''ALL'', ''SELECT'', ''SHOW'', ''dictGet'', ''INSERT'', ''UPDATE'', ''DELETE'',
      ''ALTER'', ''ALTER TABLE'', ''ALTER COLUMN'', ''ALTER CONSTRAINT'', ''ALTER INDEX'',
      ''ALTER VIEW'', ''ALTER TTL'', ''CREATE'', ''CREATE TABLE'', ''CREATE VIEW'',
      ''CREATE DICTIONARY'', ''DROP'', ''DROP TABLE'', ''DROP VIEW'', ''DROP DICTIONARY'',
      ''TRUNCATE'', ''OPTIMIZE'']"

definition applicable_grants :: "string list" where
  "applicable_grants = system_level_grants @ database_level_grants @ table_level_grants"

text \<open>The validation loop. It returns from the function at the first grant that is not
  applicable; the value is the text stored under \<open>error\<close>. \<open>upper\<close> is the
  runtime's \<open>str.upper()\<close>.\<close>

fun check_grants :: "(string \<Rightarrow> string) \<Rightarrow> string list \<Rightarrow> string option" where
  "check_grants upper [] = None"
| "check_grants upper (grant # rest) =
     (if upper grant \<notin> set applicable_grants \<and> grant \<noteq> ''dictGet''
      then Some (upper grant @ '' not in applicable grants: '' @
                 join '', '' applicable_grants @ ''.'')
      else check_grants upper rest)"

text \<open>The inner and the outer loop over \<open>enumerate(tables)\<close> and \<open>enumerate(databases)\<close>;
  the indices are carried along.\<close>

fun tables_loop ::
  "string \<Rightarrow> string list \<Rightarrow> bool \<Rightarrow> bool \<Rightarrow> nat \<Rightarrow> string \<Rightarrow> nat \<Rightarrow> string list \<Rightarrow>
   string list \<Rightarrow> string list" where
  "tables_loop grantee grants_list replace revoke db_idx database tb_idx [] query_list =
     query_list"
| "tables_loop grantee grants_list replace revoke db_idx database tb_idx (table # rest)
     query_list =
     tables_loop grantee grants_list replace revoke db_idx database (Suc tb_idx) rest
       (query_list @
        [if \<not> revoke
         then ''GRANT '' @ join '', '' grants_list @ '' on '' @ database @ ''.'' @ table @
              '' to '' @ apostrophe @ grantee @ apostrophe @
              (if replace \<and> db_idx = 0 \<and> tb_idx = 0 then '' WITH REPLACE OPTION'' else [])
         else ''REVOKE '' @ join '', '' grants_list @ '' on '' @ database @ ''.'' @ table @
              '' from '' @ apostrophe @ grantee @ apostrophe])"

fun databases_loop ::
  "string \<Rightarrow> string list \<Rightarrow> bool \<Rightarrow> bool \<Rightarrow> nat \<Rightarrow> string list \<Rightarrow> string list \<Rightarrow>
   string list \<Rightarrow> string list" where
  "databases_loop grantee grants_list replace revoke db_idx [] tables query_list =
     query_list"
| "databases_loop grantee grants_list replace revoke db_idx (database # rest) tables
     query_list =
     databases_loop grantee grants_list replace revoke (Suc db_idx) rest tables
       (tables_loop grantee grants_list replace revoke db_idx database 0 tables query_list)"

definition grants_func ::
  "(string \<Rightarrow> string) \<Rightarrow> gateway \<Rightarrow> server \<Rightarrow> string \<Rightarrow> string list \<Rightarrow> string list \<Rightarrow>
   string list \<Rightarrow> bool \<Rightarrow> bool \<Rightarrow> raised + (grants_result \<times> server)" where
  "grants_func upper exec ch_connect grantee grants_list databases tables replace revoke =
     (case check_grants upper grants_list of
        Some err \<Rightarrow>
          Inr (\<lparr>changed = False, run_queries = [], msg = None, error = Some err,
                failed = True\<rparr>, ch_connect)
      | None \<Rightarrow>
          let query_list =
                databases_loop grantee grants_list replace revoke 0 databases tables []
          in if query_list \<noteq> []
             then (case execute_all exec query_list ch_connect of
                     Inl raised \<Rightarrow> Inl raised
                   | Inr ch_connect' \<Rightarrow>
                       Inr (\<lparr>changed = True, run_queries = query_list,
                             msg = Some ''GRANTS EXECUTED'', error = None, failed = False\<rparr>,
                            ch_connect'))
             else Inr (\<lparr>changed = False, run_queries = [], msg = None, error = None,
                        failed = False\<rparr>, ch_connect))"

subsection \<open>The entry point of the grants module\<close>

text \<open>
  The module parameters that \<open>main\<close> reads, together with the two facts of the running
  environment it tests first: whether the client library was imported (\<open>CHClient\<close> is not
  \<open>False\<close>) and whether the module runs in check mode.
\<close>

record params =
  driver_installed :: bool
  check_mode :: bool
  param_grantee_name :: string
  param_grants :: "string list"
  param_databases :: "string list"
  param_tables :: "string list"
  param_grant_roles :: "string list"
  param_init_roles :: bool
  param_revoke_grants :: bool
  param_replace_grants :: bool
  param_on_cluster :: bool
  param_cluster_name :: string

text \<open>
  How a run ends: \<open>module.fail_json\<close> with a message, \<open>module.fail_json\<close> with the
  \<open>DB::Exception\<close> parts cut out of a server error (kept here as the server's message),
  or \<open>module.exit_json\<close> with one of the three result dictionaries.
\<close>

datatype outcome =
    FailJson string
  | FailJsonDbError string
  | ExitDefault
  | ExitRoles roles_result
  | ExitGrants grants_result

fun fail_of :: "exn \<Rightarrow> outcome" where
  "fail_of (ServerException message) = FailJsonDbError message"
| "fail_of (PyException err) = FailJson err"

text \<open>\<open>main\<close> returns how the run ends together with the server as the run leaves it.\<close>

definition main ::
  "(string \<Rightarrow> string) \<Rightarrow> gateway \<Rightarrow> server \<Rightarrow> params \<Rightarrow> outcome \<times> server" where
  "main upper exec ch_connect params =
     (if \<not> driver_installed params
      then (FailJson ''The clickhouse-driver module is required to install to host'',
            ch_connect)
      else if check_mode params then (ExitDefault, ch_connect)
      else
        let grantee = param_grantee_name params;
            grants_list = param_grants params;
            databases = param_databases params;
            tables = param_tables params;
            roles_list = param_grant_roles params;
            roles_init = param_init_roles params;
            revoke = param_revoke_grants params;
            replace = param_replace_grants params;
            on_cluster = param_on_cluster params;
            cluster = param_cluster_name params
        in if roles_list \<noteq> [] \<and> grants_list \<noteq> []
           then (FailJson
                   ''Only one of parameters 'grant_roles' OR 'grants' must be defined.'',
                 ch_connect)
           else if roles_list \<noteq> []
           then (case grant_roles_func exec ch_connect grantee roles_list roles_init replace
                        revoke of
                   Inl (e, ch_connect') \<Rightarrow> (fail_of e, ch_connect')
                 | Inr (result, ch_connect') \<Rightarrow> (ExitRoles result, ch_connect'))
           else if grants_list \<noteq> []
           then (case grants_func upper exec ch_connect grantee grants_list databases tables
                        replace revoke of
                   Inl (e, ch_connect') \<Rightarrow> (fail_of e, ch_connect')
                 | Inr (result, ch_connect') \<Rightarrow> (ExitGrants result, ch_connect'))
           else (FailJson ''No any grants or roles are defined'', ch_connect))"

section \<open>clickhouse\_users.py\<close>

subsection \<open>Observation\<close>

definition ch_user_roles :: "server \<Rightarrow> string \<Rightarrow> string list \<Rightarrow> string list \<times> bool" where
  "ch_user_roles ch_connect user roles =
     (let user_roles = granted_role_names ch_connect user
      in (user_roles, has_roles_loop roles user_roles True))"

definition ch_user_profiles :: "server \<Rightarrow> string \<Rightarrow> string \<Rightarrow> string list \<times> bool" where
  "ch_user_profiles ch_connect user profile =
     (let user_profiles =
            map snd (filter (\<lambda>row. fst row = user)
                       (system_settings_profile_elements ch_connect))
      in (user_profiles, (if profile \<in> set user_profiles then True else False)))"

definition ch_user_quotas ::
  "server \<Rightarrow> string \<Rightarrow> string \<Rightarrow> string list \<times> bool \<times> string list" where
  "ch_user_quotas ch_connect user quota =
     (let user_quotas =
            map fst (filter (\<lambda>row. user \<in> set (snd row)) (system_quotas ch_connect));
          raw_quota_users =
            map snd (filter (\<lambda>row. fst row = quota) (system_quotas ch_connect));
          quota_applied_users =
            (case raw_quota_users of [] \<Rightarrow> [] | apply_to_list # others \<Rightarrow> apply_to_list);
          user_has_quota = (if quota \<in> set user_quotas then True else False)
      in (user_quotas, user_has_quota, quota_applied_users @ [user]))"

subsection \<open>Creating and updating a user\<close>

text \<open>The four steps of \<open>create_update_user\<close>, each adding to the statement list and to
  the status.\<close>

definition create_step :: "server \<Rightarrow> string \<Rightarrow> string \<Rightarrow> string list" where
  "create_step ch_connect user password =
     (if \<not> ch_user_exists ch_connect user
      then [''CREATE USER '' @ user @ '' IDENTIFIED WITH sha256_password BY '' @
            apostrophe @ password @ apostrophe]
      else [])"

definition quota_step :: "server \<Rightarrow> string \<Rightarrow> string \<Rightarrow> string list" where
  "quota_step ch_connect user quota =
     (if quota \<noteq> []
      then (case ch_user_quotas ch_connect user quota of
              (user_quotas, user_has_quota, quota_apply_users) \<Rightarrow>
                if \<not> user_has_quota
                then [''ALTER QUOTA '' @ quota @ '' to '' @ join '', '' quota_apply_users]
                else [])
      else [])"

definition profile_step :: "server \<Rightarrow> string \<Rightarrow> string \<Rightarrow> string list" where
  "profile_step ch_connect user profile =
     (if profile \<noteq> []
      then (case ch_user_profiles ch_connect user profile of
              (user_profiles, user_has_profile) \<Rightarrow>
                if \<not> user_has_profile
                then [''ALTER USER '' @ user @ '' SETTINGS PROFILE '' @ profile]
                else [])
      else [])"

definition roles_step :: "server \<Rightarrow> string \<Rightarrow> string list \<Rightarrow> string list" where
  "roles_step ch_connect user roles =
     (if roles \<noteq> []
      then (case ch_user_roles ch_connect user roles of
              (user_roles, user_has_roles) \<Rightarrow>
                if \<not> user_has_roles
                then [''GRANT '' @ join '', '' roles @ '' to '' @ user]
                else [])
      else [])"

text \<open>The \<open>user_status\<close> dictionary of the users module; a key that was never set is
  \<open>None\<close>.\<close>

record status =
  user_exists :: bool
  user_quotas :: "string list option"
  user_has_quota :: "bool option"
  user_profiles :: "string list option"
  user_has_profile :: "bool option"
  user_roles :: "string list option"
  user_has_roles :: "bool option"

definition status_of :: "server \<Rightarrow> string \<Rightarrow> string list \<Rightarrow> string \<Rightarrow> string \<Rightarrow> status" where
  "status_of ch_connect user roles quota profile =
     \<lparr>user_exists = ch_user_exists ch_connect user,
      user_quotas =
        (if quota \<noteq> [] then Some (fst (ch_user_quotas ch_connect user quota)) else None),
      user_has_quota =
        (if quota \<noteq> [] then Some (fst (snd (ch_user_quotas ch_connect user quota)))
         else None),
      user_profiles =
        (if profile \<noteq> [] then Some (fst (ch_user_profiles ch_connect user profile))
         else None),
      user_has_profile =
        (if profile \<noteq> [] then Some (snd (ch_user_profiles ch_connect user profile))
         else None),
      user_roles =
        (if roles \<noteq> [] then Some (fst (ch_user_roles ch_connect user roles)) else None),
      user_has_roles =
        (if roles \<noteq> [] then Some (snd (ch_user_roles ch_connect user roles)) else None)\<rparr>"

definition create_update_user ::
  "gateway \<Rightarrow> server \<Rightarrow> string \<Rightarrow> string \<Rightarrow> string list \<Rightarrow> string \<Rightarrow> string \<Rightarrow>
   raised + (status status_result \<times> server)" where
  "create_update_user exec ch_connect user password roles quota profile =
     (let query_list =
            create_step ch_connect user password @ quota_step ch_connect user quota @
            profile_step ch_connect user profile @ roles_step ch_connect user roles;
          return_list =
            \<lparr>changed = False, run_queries = query_list,
             user_status = status_of ch_connect user roles quota profile\<rparr>
      in if query_list \<noteq> []
         then (case execute_all exec query_list ch_connect of
                 Inl raised \<Rightarrow> Inl raised
               | Inr ch_connect' \<Rightarrow> Inr (return_list\<lparr>changed := True\<rparr>, ch_connect'))
         else Inr (return_list, ch_connect))"

section \<open>The specification's vocabulary\<close>

text \<open>
  The definitions of this section are written from the specification, not from the code:
  the statement shapes of its interface section, the diffs of its component design, and
  the predicates its properties use. The theorems below compare them with the functions
  of the two modules.
\<close>

subsection \<open>Statement shapes\<close>

definition replace_clause :: string where
  "replace_clause = '' WITH REPLACE OPTION''"

definition spec_CreateRole :: "string \<Rightarrow> string" where
  "spec_CreateRole role = ''CREATE ROLE IF NOT EXISTS '' @ role"

definition spec_GrantRoles :: "string list \<Rightarrow> string \<Rightarrow> bool \<Rightarrow> string" where
  "spec_GrantRoles roles grantee with_replace =
     ''GRANT '' @ join '', '' roles @ '' to '' @ apostrophe @ grantee @ apostrophe @
     (if with_replace then replace_clause else [])"

definition spec_RevokeRoles :: "string \<Rightarrow> string \<Rightarrow> string" where
  "spec_RevokeRoles grantee role =
     ''REVOKE '' @ role @ '' from '' @ apostrophe @ grantee @ apostrophe"

definition spec_GrantPrivileges ::
  "string list \<Rightarrow> string \<Rightarrow> string \<times> string \<Rightarrow> bool \<Rightarrow> string" where
  "spec_GrantPrivileges privileges grantee target with_replace =
     ''GRANT '' @ join '', '' privileges @ '' on '' @ fst target @ ''.'' @ snd target @
     '' to '' @ apostrophe @ grantee @ apostrophe @
     (if with_replace then replace_clause else [])"

definition spec_RevokePrivileges :: "string list \<Rightarrow> string \<Rightarrow> string \<times> string \<Rightarrow> string" where
  "spec_RevokePrivileges privileges grantee target =
     ''REVOKE '' @ join '', '' privileges @ '' on '' @ fst target @ ''.'' @ snd target @
     '' from '' @ apostrophe @ grantee @ apostrophe"

definition spec_CreateUser :: "string \<Rightarrow> string \<Rightarrow> string" where
  "spec_CreateUser grantee password =
     ''CREATE USER '' @ grantee @ '' IDENTIFIED WITH sha256_password BY '' @
     apostrophe @ password @ apostrophe"

definition spec_AlterQuota :: "string \<Rightarrow> string list \<Rightarrow> string" where
  "spec_AlterQuota quota members = ''ALTER QUOTA '' @ quota @ '' to '' @ join '', '' members"

definition spec_AlterProfile :: "string \<Rightarrow> string \<Rightarrow> string" where
  "spec_AlterProfile grantee profile =
     ''ALTER USER '' @ grantee @ '' SETTINGS PROFILE '' @ profile"

text \<open>The users module documents its GRANT of roles without quotes around the user.\<close>

definition spec_GrantRolesToUser :: "string list \<Rightarrow> string \<Rightarrow> string" where
  "spec_GrantRolesToUser roles grantee = ''GRANT '' @ join '', '' roles @ '' to '' @ grantee"

text \<open>A statement carries the replace clause when the clause is its end.\<close>

definition carries_replace_clause :: "string \<Rightarrow> bool" where
  "carries_replace_clause statement = suffix replace_clause statement"

subsection \<open>Scope targets and the privilege-grant diff\<close>

text \<open>The cross product of databases and tables, row-major over databases then tables.\<close>

definition scope_targets :: "string list \<Rightarrow> string list \<Rightarrow> (string \<times> string) list" where
  "scope_targets databases tables = List.product databases tables"

text \<open>One statement per target, in order; on the grant path the target at position 0
  takes the replace flag.\<close>

definition spec_privilege_diff ::
  "string list \<Rightarrow> string \<Rightarrow> (string \<times> string) list \<Rightarrow> bool \<Rightarrow> bool \<Rightarrow> string list" where
  "spec_privilege_diff privileges grantee targets replace revoke =
     (if revoke then map (spec_RevokePrivileges privileges grantee) targets
      else map (\<lambda>(i, t). spec_GrantPrivileges privileges grantee t (replace \<and> i = 0))
             (enumerate 0 targets))"

text \<open>A privilege name is in the taxonomy when its upper-case form, as \<open>upper\<close> gives
  it, is listed, or when it is the one mixed-case name, written verbatim.\<close>

definition in_taxonomy :: "(string \<Rightarrow> string) \<Rightarrow> string \<Rightarrow> bool" where
  "in_taxonomy upper privilege =
     (upper privilege \<in> set applicable_grants \<or> privilege = ''dictGet'')"

definition unsupported_privilege_error :: "(string \<Rightarrow> string) \<Rightarrow> string \<Rightarrow> string" where
  "unsupported_privilege_error upper privilege =
     upper privilege @ '' not in applicable grants: '' @ join '', '' applicable_grants @ ''.''"

subsection \<open>Running a call twice\<close>

text \<open>The second of two calls in sequence starts from the server state the first one
  left.\<close>

definition second_run ::
  "(server \<Rightarrow> raised + ('r \<times> server)) \<Rightarrow> server \<Rightarrow> raised + ('r \<times> server)" where
  "second_run call s = (case call s of Inl e \<Rightarrow> Inl e | Inr (r, s') \<Rightarrow> call s')"

subsection \<open>Observed memberships\<close>

text \<open>What the server records about a principal, read off the system tables: whether a
  quota of the given name lists it, the member list of the named quota (of its first row;
  empty when there is no such row), whether a profile is assigned to it, and whether
  nothing at all is recorded under its name, as is the case for a principal that does not
  exist.\<close>

definition has_quota :: "server \<Rightarrow> string \<Rightarrow> string \<Rightarrow> bool" where
  "has_quota s user quota =
     (\<exists>row\<in>set (system_quotas s). fst row = quota \<and> user \<in> set (snd row))"

definition quota_members :: "server \<Rightarrow> string \<Rightarrow> string list" where
  "quota_members s quota =
     (case filter (\<lambda>row. fst row = quota) (system_quotas s) of
        [] \<Rightarrow> []
      | row # others \<Rightarrow> snd row)"

definition has_profile :: "server \<Rightarrow> string \<Rightarrow> string \<Rightarrow> bool" where
  "has_profile s user profile = ((user, profile) \<in> set (system_settings_profile_elements s))"

definition holds_nothing :: "server \<Rightarrow> string \<Rightarrow> bool" where
  "holds_nothing s user =
     ((\<forall>row\<in>set (system_role_grants s). fst row \<noteq> user) \<and>
      (\<forall>row\<in>set (system_settings_profile_elements s). fst row \<noteq> user) \<and>
      (\<forall>row\<in>set (system_quotas s). user \<notin> set (snd row)))"

definition has_roles :: "server \<Rightarrow> string \<Rightarrow> string list \<Rightarrow> bool" where
  "has_roles s user roles = (\<forall>role\<in>set roles. (user, role) \<in> set (system_role_grants s))"

subsection \<open>The user-lifecycle diff, target state present\<close>

text \<open>If the principal does not exist, CreateUser; then, each on its own check, AlterQuota
  with the quota's members and the principal after them, AlterProfile, and GrantRoles.\<close>

definition spec_user_diff ::
  "server \<Rightarrow> string \<Rightarrow> string \<Rightarrow> string list \<Rightarrow> string \<Rightarrow> string \<Rightarrow> string list" where
  "spec_user_diff s user password roles quota profile =
     (if \<not> ch_user_exists s user then [spec_CreateUser user password] else []) @
     (if quota \<noteq> [] \<and> \<not> has_quota s user quota
      then [spec_AlterQuota quota (quota_members s quota @ [user])] else []) @
     (if profile \<noteq> [] \<and> \<not> has_profile s user profile
      then [spec_AlterProfile user profile] else []) @
     (if roles \<noteq> [] \<and> \<not> has_roles s user roles
      then [spec_GrantRolesToUser roles user] else [])"

subsection \<open>Servers and gateways for the worked examples\<close>

text \<open>A gateway that accepts every statement and leaves the observed tables as they are.
  This is what a server does with the privilege statements, whose effect is on tables
  that neither module reads; in the other examples it stands for a run whose statements
  all succeed and whose final state is not looked at.\<close>

definition accepting :: gateway where
  "accepting query s = Inr s"

text \<open>A gateway that refuses every statement: a run that ends without an exception has
  handed it nothing.\<close>

definition refusing :: gateway where
  "refusing query s = Inl (ServerException ''refused'')"

text \<open>A gateway that answers a statement by recording role \<open>r2\<close> as granted to
  \<open>reader\<close>: the effect of \<open>GRANT r2 to 'reader'\<close>.\<close>

definition granting_r2 :: gateway where
  "granting_r2 query s =
     Inr (s\<lparr>system_role_grants := system_role_grants s @ [(''reader'', ''r2'')]\<rparr>)"

text \<open>A gateway that answers a statement by making \<open>r2\<close> the only role of
  \<open>reader\<close>: the effect of \<open>GRANT r2 to 'reader' WITH REPLACE OPTION\<close>.\<close>

definition replacing_by_r2 :: gateway where
  "replacing_by_r2 query s = Inr (s\<lparr>system_role_grants := [(''reader'', ''r2'')]\<rparr>)"

text \<open>A server with the user \<open>reader\<close>, who holds the role \<open>r1\<close>.\<close>

definition example_server :: server where
  "example_server =
     \<lparr>system_users = [''reader''], system_role_grants = [(''reader'', ''r1'')],
      system_settings_profile_elements = [], system_quotas = []\<rparr>"

text \<open>A server that does not know the user \<open>u\<close>; the quota \<open>q1\<close> applies to
  \<open>alice\<close> and \<open>bob\<close>.\<close>

definition fresh_server :: server where
  "fresh_server =
     \<lparr>system_users = [''alice'', ''bob''], system_role_grants = [(''alice'', ''r1'')],
      system_settings_profile_elements = [(''alice'', ''p1'')],
      system_quotas = [(''q1'', [''alice'', ''bob''])]\<rparr>"

text \<open>The same server after \<open>u\<close> was created with profile \<open>p1\<close> and role \<open>r1\<close>, but
  without the quota.\<close>

definition settled_server :: server where
  "settled_server =
     \<lparr>system_users = [''alice'', ''bob'', ''u''],
      system_role_grants = [(''alice'', ''r1''), (''u'', ''r1'')],
      system_settings_profile_elements = [(''alice'', ''p1''), (''u'', ''p1'')],
      system_quotas = [(''q1'', [''alice'', ''bob''])]\<rparr>"

text \<open>Parameters of a run of the grants module that asks for \<open>select\<close> on
  \<open>default.*\<close> for \<open>reader\<close>, with every other parameter at its default.\<close>

definition example_params :: params where
  "example_params =
     \<lparr>driver_installed = True, check_mode = False, param_grantee_name = ''reader'',
      param_grants = [''select''], param_databases = [''default''], param_tables = [''*''],
      param_grant_roles = [], param_init_roles = False, param_revoke_grants = False,
      param_replace_grants = False, param_on_cluster = False,
      param_cluster_name = ''default''\<rparr>"

section \<open>Auxiliary facts about the loops\<close>

lemma has_roles_loop_eq:
  "has_roles_loop roles held flag = (flag \<and> set roles \<subseteq> set held)"
  by (induction roles arbitrary: flag) auto

lemma revoke_loop_eq:
  "revoke_loop grantee held roles acc =
     acc @ map (spec_RevokeRoles grantee) (filter (\<lambda>role. role \<in> set held) roles)"
  by (induction roles arbitrary: acc) (simp_all add: spec_RevokeRoles_def)

lemma create_loop_eq:
  "create_loop roles acc = acc @ map spec_CreateRole roles"
  by (induction roles arbitrary: acc) (simp_all add: spec_CreateRole_def)

lemma tables_loop_eq:
  "tables_loop g P rep rvk di d ti tbs acc =
     acc @ map (\<lambda>(j, t). if \<not> rvk then spec_GrantPrivileges P g (d, t) (rep \<and> di = 0 \<and> j = 0)
                        else spec_RevokePrivileges P g (d, t)) (enumerate ti tbs)"
  by (induction tbs arbitrary: ti acc)
     (simp_all add: spec_GrantPrivileges_def spec_RevokePrivileges_def replace_clause_def)

lemma databases_loop_eq:
  "databases_loop g P rep rvk di dbs tbs acc =
     acc @ concat (map (\<lambda>(i, d). map (\<lambda>(j, t). if \<not> rvk then spec_GrantPrivileges P g (d, t) (rep \<and> i = 0 \<and> j = 0)
                        else spec_RevokePrivileges P g (d, t)) (enumerate 0 tbs)) (enumerate di dbs))"
  by (induction dbs arbitrary: di acc) (simp_all add: tables_loop_eq)

lemma map_enumerate_drop_index:
  "map (\<lambda>(j, x). F x) (enumerate k xs) = map F xs"
  by (induction xs arbitrary: k) simp_all

lemma map_enumerate_later:
  "map (\<lambda>(i, x). G x (b \<and> i = 0)) (enumerate (Suc k) xs) = map (\<lambda>x. G x False) xs"
  by (induction xs arbitrary: k) simp_all

lemma concat_enumerate_later:
  "concat (map (\<lambda>(i, d). map (\<lambda>(j, t). G (d, t) (b \<and> i = 0 \<and> j = (0::nat))) (enumerate 0 tbs))
             (enumerate (Suc di) dbs)) =
   map (\<lambda>x. G x False) (List.product dbs tbs)"
proof (induction dbs arbitrary: di)
  case Nil
  show ?case by simp
next
  case (Cons d dbs)
  have "map (\<lambda>(j, t). G (d, t) False) (enumerate 0 tbs) = map (\<lambda>t. G (d, t) False) tbs"
    by (rule map_enumerate_drop_index)
  with Cons show ?case by (simp add: comp_def)
qed

lemma concat_enumerate_revoke:
  "concat (map (\<lambda>(i, d). map (\<lambda>(j, t). R (d, t)) (enumerate 0 tbs)) (enumerate di dbs)) =
   map R (List.product dbs tbs)"
proof (induction dbs arbitrary: di)
  case Nil
  show ?case by simp
next
  case (Cons d dbs)
  have "map (\<lambda>(j, t). R (d, t)) (enumerate 0 tbs) = map (\<lambda>t. R (d, t)) tbs"
    by (rule map_enumerate_drop_index)
  with Cons show ?case by (simp add: comp_def)
qed

lemma product_Nil_right: "List.product xs [] = []"
  by (induction xs) simp_all

lemma databases_loop_refines:
  "databases_loop g P rep rvk 0 dbs tbs [] =
     spec_privilege_diff P g (scope_targets dbs tbs) rep rvk"
proof (cases rvk)
  case True
  then show ?thesis
    by (simp add: databases_loop_eq spec_privilege_diff_def scope_targets_def
        concat_enumerate_revoke)
next
  case False
  show ?thesis
  proof (cases dbs)
    case Nil
    then show ?thesis
      by (simp add: spec_privilege_diff_def scope_targets_def)
  next
    case (Cons d ds)
    show ?thesis
    proof (cases tbs)
      case Nil
      then show ?thesis
        by (simp add: databases_loop_eq spec_privilege_diff_def scope_targets_def
            product_Nil_right)
    next
      case (Cons t ts)
      have inner: "map (\<lambda>(j, t). spec_GrantPrivileges P g (d, t) (rep \<and> j = 0)) (enumerate (Suc 0) ts)
                 = map (\<lambda>t. spec_GrantPrivileges P g (d, t) False) ts"
        by (rule map_enumerate_later[of "\<lambda>t. spec_GrantPrivileges P g (d, t)"])
      have outer: "concat (map (\<lambda>(i, d). map (\<lambda>(j, t). spec_GrantPrivileges P g (d, t) (rep \<and> i = 0 \<and> j = 0))
                     (enumerate 0 (t # ts))) (enumerate (Suc 0) ds))
                 = map (\<lambda>x. spec_GrantPrivileges P g x False) (List.product ds (t # ts))"
        by (rule concat_enumerate_later)
      have rest: "map (\<lambda>(i, x). spec_GrantPrivileges P g x (rep \<and> i = 0))
                    (enumerate (Suc 0) (map (Pair d) ts @ List.product ds (t # ts)))
                 = map (\<lambda>x. spec_GrantPrivileges P g x False) (map (Pair d) ts @ List.product ds (t # ts))"
        by (rule map_enumerate_later)
      have lhs: "databases_loop g P rep rvk 0 dbs tbs [] =
            spec_GrantPrivileges P g (d, t) rep #
            map (\<lambda>t. spec_GrantPrivileges P g (d, t) False) ts @
            map (\<lambda>x. spec_GrantPrivileges P g x False) (List.product ds (t # ts))"
        using False \<open>dbs = d # ds\<close> Cons inner outer
        by (simp add: databases_loop_eq)
      have rhs: "spec_privilege_diff P g (scope_targets dbs tbs) rep rvk =
            spec_GrantPrivileges P g (d, t) rep #
            map (\<lambda>x. spec_GrantPrivileges P g x False) (map (Pair d) ts @ List.product ds (t # ts))"
        using False \<open>dbs = d # ds\<close> Cons rest
        by (simp add: spec_privilege_diff_def scope_targets_def)
      show ?thesis
        by (simp add: lhs rhs comp_def)
    qed
  qed
qed

lemma execute_all_accepting: "execute_all accepting qs s = Inr s"
  by (induction qs) (simp_all add: accepting_def)

lemma check_grants_find:
  "check_grants up P =
     (case find (\<lambda>p. \<not> in_taxonomy up p) P of
        None \<Rightarrow> None
      | Some p \<Rightarrow> Some (unsupported_privilege_error up p))"
  by (induction P) (simp_all add: in_taxonomy_def unsupported_privilege_error_def)

lemma check_grants_valid:
  "(\<forall>p\<in>set P. in_taxonomy up p) \<Longrightarrow> check_grants up P = None"
  by (induction P) (simp_all add: in_taxonomy_def)

lemma spec_privilege_diff_Nil: "spec_privilege_diff P g [] rep rvk = []"
  by (simp add: spec_privilege_diff_def)

lemma spec_privilege_diff_grant_Cons:
  "spec_privilege_diff P g (t # ts) rep False =
     spec_GrantPrivileges P g t rep # map (\<lambda>x. spec_GrantPrivileges P g x False) ts"
  using map_enumerate_later[of "spec_GrantPrivileges P g" rep 0 ts]
  by (simp add: spec_privilege_diff_def)

lemma length_spec_privilege_diff:
  "length (spec_privilege_diff P g ts rep rvk) = length ts"
  by (simp add: spec_privilege_diff_def)

lemma grants_func_valid:
  assumes "\<forall>p\<in>set P. in_taxonomy up p"
    and "execute_all exec (spec_privilege_diff P g (scope_targets dbs tbs) rep rvk) s = Inr s'"
  shows "grants_func up exec s g P dbs tbs rep rvk =
     Inr (\<lparr>changed = (scope_targets dbs tbs \<noteq> []),
           run_queries = spec_privilege_diff P g (scope_targets dbs tbs) rep rvk,
           msg = (if scope_targets dbs tbs \<noteq> [] then Some ''GRANTS EXECUTED'' else None),
           error = None, failed = False\<rparr>, s')"
proof -
  let ?plan = "spec_privilege_diff P g (scope_targets dbs tbs) rep rvk"
  have nonempty: "(?plan \<noteq> []) = (scope_targets dbs tbs \<noteq> [])"
    using length_spec_privilege_diff[of P g "scope_targets dbs tbs" rep rvk]
    by (metis length_0_conv)
  show ?thesis
  proof (cases "scope_targets dbs tbs = []")
    case True
    with assms show ?thesis
      by (simp add: grants_func_def check_grants_valid databases_loop_refines
          spec_privilege_diff_Nil)
  next
    case False
    with nonempty have "?plan \<noteq> []" by simp
    with assms False show ?thesis
      by (simp add: grants_func_def check_grants_valid databases_loop_refines)
  qed
qed

lemma carries_with_replace: "carries_replace_clause (spec_GrantPrivileges P g t True)"
  by (simp add: carries_replace_clause_def spec_GrantPrivileges_def suffix_def)

lemma suffix_last: "suffix xs ys \<Longrightarrow> xs \<noteq> [] \<Longrightarrow> last ys = last xs"
  by (auto simp: suffix_def)

lemma not_carries_without_replace:
  "\<not> carries_replace_clause (spec_GrantPrivileges P g t False)"
proof
  assume "carries_replace_clause (spec_GrantPrivileges P g t False)"
  then have "last (spec_GrantPrivileges P g t False) = last replace_clause"
    unfolding carries_replace_clause_def
    by (rule suffix_last) (simp add: replace_clause_def)
  then show False
    by (simp add: spec_GrantPrivileges_def replace_clause_def)
qed

lemma in_taxonomy_select: "in_taxonomy ascii_upper ''select''"
  by (simp add: in_taxonomy_def ascii_upper_def ascii_upper_char_def applicable_grants_def
      system_level_grants_def database_level_grants_def table_level_grants_def)

lemma check_grants_first_bad:
  assumes "\<forall>p\<in>set valid. in_taxonomy up p" and "\<not> in_taxonomy up bad"
  shows "check_grants up (valid @ bad # rest) = Some (unsupported_privilege_error up bad)"
  using assms
  by (induction valid) (auto simp: in_taxonomy_def unsupported_privilege_error_def)

lemma not_in_taxonomy_bogus: "\<not> in_taxonomy ascii_upper ''bogus''"
  by (simp add: in_taxonomy_def ascii_upper_def ascii_upper_char_def applicable_grants_def
      system_level_grants_def database_level_grants_def table_level_grants_def)

lemma get_user_roles_exists:
  "ch_user_exists s g \<Longrightarrow>
   get_user_roles s g R = Inr (granted_role_names s g, set R \<subseteq> set (granted_role_names s g))"
  by (simp add: get_user_roles_def has_roles_loop_eq Let_def)

lemma roles_query_list_eq:
  "roles_query_list g R init rep rvk H has =
     (if rvk then map (spec_RevokeRoles g) (filter (\<lambda>role. role \<in> set H) R)
      else (if init \<and> \<not> has then map spec_CreateRole R else []) @
           (if rep then [spec_GrantRoles R g True]
            else if \<not> has then [spec_GrantRoles R g False] else []))"
  by (simp add: roles_query_list_def revoke_loop_eq create_loop_eq spec_GrantRoles_def
      replace_clause_def)

lemma grant_roles_func_exists:
  assumes "ch_user_exists s g"
    and "execute_all exec
           (roles_query_list g R init rep rvk (granted_role_names s g)
              (set R \<subseteq> set (granted_role_names s g))) s = Inr s'"
  shows "grant_roles_func exec s g R init rep rvk =
     Inr (\<lparr>changed =
             (roles_query_list g R init rep rvk (granted_role_names s g)
                (set R \<subseteq> set (granted_role_names s g)) \<noteq> []),
           run_queries =
             roles_query_list g R init rep rvk (granted_role_names s g)
               (set R \<subseteq> set (granted_role_names s g)),
           user_status =
             (if rvk then None
              else Some (granted_role_names s g, set R \<subseteq> set (granted_role_names s g))),
           grant_roles = R, revoke_grants = rvk, replace_grants = rep\<rparr>, s')"
proof (cases "roles_query_list g R init rep rvk (granted_role_names s g)
                (set R \<subseteq> set (granted_role_names s g)) = []")
  case True
  with assms show ?thesis
    by (simp add: grant_roles_func_def get_user_roles_exists Let_def)
next
  case False
  with assms show ?thesis
    by (simp add: grant_roles_func_def get_user_roles_exists Let_def)
qed

lemma example_server_reader: "ch_user_exists example_server ''reader''"
  by (simp add: ch_user_exists_def example_server_def)

lemma example_server_roles: "granted_role_names example_server ''reader'' = [''r1'']"
  by (simp add: granted_role_names_def example_server_def)

section \<open>Auxiliary facts about the users module\<close>

lemma create_step_eq:
  "create_step s user password =
     (if \<not> ch_user_exists s user then [spec_CreateUser user password] else [])"
  by (simp add: create_step_def spec_CreateUser_def)

lemma ch_user_quotas_eq:
  "ch_user_quotas s user quota =
     (map fst (filter (\<lambda>row. user \<in> set (snd row)) (system_quotas s)),
      has_quota s user quota, quota_members s quota @ [user])"
proof -
  have listed: "(quota \<in> set (map fst (filter (\<lambda>row. user \<in> set (snd row)) (system_quotas s))))
      = has_quota s user quota"
    by (auto simp: has_quota_def)
  have members: "(case map snd (filter (\<lambda>row. fst row = quota) (system_quotas s)) of
                    [] \<Rightarrow> [] | apply_to_list # others \<Rightarrow> apply_to_list)
      = quota_members s quota"
    by (cases "filter (\<lambda>row. fst row = quota) (system_quotas s)")
       (simp_all add: quota_members_def)
  show ?thesis
    unfolding ch_user_quotas_def Let_def members
    using listed by simp
qed

lemma quota_step_eq:
  "quota_step s user quota =
     (if quota \<noteq> [] \<and> \<not> has_quota s user quota
      then [spec_AlterQuota quota (quota_members s quota @ [user])] else [])"
  by (simp add: quota_step_def ch_user_quotas_eq spec_AlterQuota_def)

lemma profile_step_eq:
  "profile_step s user profile =
     (if profile \<noteq> [] \<and> \<not> has_profile s user profile
      then [spec_AlterProfile user profile] else [])"
  by (auto simp: profile_step_def ch_user_profiles_def has_profile_def spec_AlterProfile_def
      Let_def image_iff)

lemma granted_role_names_set:
  "(role \<in> set (granted_role_names s user)) = ((user, role) \<in> set (system_role_grants s))"
  by (auto simp: granted_role_names_def image_iff)

lemma roles_step_eq:
  "roles_step s user roles =
     (if roles \<noteq> [] \<and> \<not> has_roles s user roles
      then [spec_GrantRolesToUser roles user] else [])"
proof -
  have "(set roles \<subseteq> set (granted_role_names s user)) = has_roles s user roles"
    by (auto simp: has_roles_def granted_role_names_set)
  then show ?thesis
    by (simp add: roles_step_def ch_user_roles_def has_roles_loop_eq Let_def
        spec_GrantRolesToUser_def)
qed

lemma create_update_user_accepted:
  assumes "execute_all exec (spec_user_diff s user password roles quota profile) s = Inr s'"
  shows "create_update_user exec s user password roles quota profile =
     Inr (\<lparr>changed = (spec_user_diff s user password roles quota profile \<noteq> []),
           run_queries = spec_user_diff s user password roles quota profile,
           user_status = status_of s user roles quota profile\<rparr>, s')"
proof -
  have plan: "create_step s user password @ quota_step s user quota @
            profile_step s user profile @ roles_step s user roles =
            spec_user_diff s user password roles quota profile"
    by (simp only: create_step_eq quota_step_eq profile_step_eq roles_step_eq
        spec_user_diff_def)
  show ?thesis
  proof (cases "spec_user_diff s user password roles quota profile = []")
    case True
    with assms show ?thesis
      unfolding create_update_user_def plan by (simp add: Let_def)
  next
    case False
    with assms show ?thesis
      unfolding create_update_user_def plan by (simp add: Let_def)
  qed
qed

lemma holds_nothing_unsatisfied:
  assumes "holds_nothing s user"
  shows "\<not> has_quota s user quota" and "\<not> has_profile s user profile"
    and "roles \<noteq> [] \<Longrightarrow> \<not> has_roles s user roles"
proof -
  from assms show "\<not> has_quota s user quota"
    by (auto simp: holds_nothing_def has_quota_def)
  from assms show "\<not> has_profile s user profile"
    by (force simp: holds_nothing_def has_profile_def)
  show "\<not> has_roles s user roles" if "roles \<noteq> []"
  proof -
    from that obtain role where "role \<in> set roles" by (cases roles) auto
    with assms show ?thesis
      by (force simp: holds_nothing_def has_roles_def)
  qed
qed


lemma alter_quota_filter:
  "filter (prefix ''ALTER QUOTA '') (spec_user_diff s user password roles quota profile) =
     (if quota \<noteq> [] \<and> \<not> has_quota s user quota
      then [spec_AlterQuota quota (quota_members s quota @ [user])] else [])"
  by (simp add: spec_user_diff_def spec_CreateUser_def spec_AlterQuota_def
      spec_AlterProfile_def spec_GrantRolesToUser_def)

section \<open>The claims\<close>

subsection \<open>C8: the cross product is enumerated row by row\<close>

text \<open>
  Claim C8. For a privilege-grant reconciliation with \<open>revoke\<close> unset and privileges that
  all pass validation (whatever function stands for \<open>str.upper()\<close>), on a server that
  accepts the statements, \<open>grants_func\<close> returns
  one GRANT statement per (database, table) pair, in the order of the cross product taken
  row-major over databases then tables; the statement at position 0 takes the replace
  clause when \<open>replace\<close> is set. The cross product is the concatenation, database by
  database, of that database paired with every table, and has
  \<open>length databases * length tables\<close> entries. The worked example of the claim
  (databases \<open>d1, d2\<close>, tables \<open>t1, t2\<close>, privilege \<open>select\<close>) is the witness.
\<close>

theorem cross_product_order:
  assumes "\<forall>p\<in>set privileges. in_taxonomy upper p"
    and "execute_all exec
           (map (\<lambda>(i, t). spec_GrantPrivileges privileges grantee t (replace \<and> i = 0))
              (enumerate 0 (scope_targets databases tables))) s = Inr s'"
  shows "grants_func upper exec s grantee privileges databases tables replace False =
           Inr (\<lparr>changed = (databases \<noteq> [] \<and> tables \<noteq> []),
                 run_queries =
                   map (\<lambda>(i, t). spec_GrantPrivileges privileges grantee t (replace \<and> i = 0))
                     (enumerate 0 (scope_targets databases tables)),
                 msg = (if databases \<noteq> [] \<and> tables \<noteq> [] then Some ''GRANTS EXECUTED''
                        else None),
                 error = None, failed = False\<rparr>, s')
         \<and> scope_targets databases tables =
             concat (map (\<lambda>d. map (\<lambda>t. (d, t)) tables) databases)
         \<and> length (scope_targets databases tables) = length databases * length tables"
proof -
  have ne: "(scope_targets databases tables \<noteq> []) = (databases \<noteq> [] \<and> tables \<noteq> [])"
    using length_product[of databases tables]
    by (metis length_0_conv mult_is_0 scope_targets_def)
  have "grants_func upper exec s grantee privileges databases tables replace False =
     Inr (\<lparr>changed = (scope_targets databases tables \<noteq> []),
           run_queries = spec_privilege_diff privileges grantee (scope_targets databases tables) replace False,
           msg = (if scope_targets databases tables \<noteq> [] then Some ''GRANTS EXECUTED'' else None),
           error = None, failed = False\<rparr>, s')"
    using assms by (intro grants_func_valid) (simp_all add: spec_privilege_diff_def)
  then have first: "grants_func upper exec s grantee privileges databases tables replace False =
           Inr (\<lparr>changed = (databases \<noteq> [] \<and> tables \<noteq> []),
                 run_queries =
                   map (\<lambda>(i, t). spec_GrantPrivileges privileges grantee t (replace \<and> i = 0))
                     (enumerate 0 (scope_targets databases tables)),
                 msg = (if databases \<noteq> [] \<and> tables \<noteq> [] then Some ''GRANTS EXECUTED''
                        else None),
                 error = None, failed = False\<rparr>, s')"
    by (simp add: ne spec_privilege_diff_def)
  have second: "scope_targets databases tables =
             concat (map (\<lambda>d. map (\<lambda>t. (d, t)) tables) databases)"
    by (simp add: scope_targets_def product_concat_map)
  have third: "length (scope_targets databases tables) = length databases * length tables"
    by (simp add: scope_targets_def)
  from first second third show ?thesis by blast
qed

text \<open>The example of claim C8: four statements, in the order d1.t1, d1.t2, d2.t1,
  d2.t2.\<close>

theorem cross_product_order_witness:
  "grants_func ascii_upper accepting example_server ''reader'' [''select''] [''d1'', ''d2'']
     [''t1'', ''t2''] False False =
   Inr (\<lparr>changed = True,
         run_queries =
           [''GRANT select on d1.t1 to 'reader'' @ apostrophe,
            ''GRANT select on d1.t2 to 'reader'' @ apostrophe,
            ''GRANT select on d2.t1 to 'reader'' @ apostrophe,
            ''GRANT select on d2.t2 to 'reader'' @ apostrophe],
         msg = Some ''GRANTS EXECUTED'', error = None, failed = False\<rparr>, example_server)"
proof -
  have valid: "\<forall>p\<in>set [''select'']. in_taxonomy ascii_upper p"
    by (simp add: in_taxonomy_select)
  show ?thesis
    using cross_product_order[where grantee = "''reader''" and replace = False
          and databases = "[''d1'', ''d2'']" and tables = "[''t1'', ''t2'']",
        OF valid execute_all_accepting, of example_server]
    by (simp add: scope_targets_def spec_GrantPrivileges_def)
qed

subsection \<open>C2: the replace clause is attached once\<close>

text \<open>
  Claim C2. For a privilege-grant reconciliation with \<open>revoke\<close> unset, privileges that all
  pass validation (whatever function stands for \<open>str.upper()\<close>) and at least two scope
  targets, on a server that accepts the statements:
  \<open>grants_func\<close> returns as many statements as there are targets; with \<open>replace\<close> set,
  the positions of the statements that carry the replace clause are exactly position 0,
  and that statement is the GRANT for the first database and the first table; with
  \<open>replace\<close> unset, no position carries the clause.
\<close>

theorem replace_single_shot:
  assumes "\<forall>p\<in>set privileges. in_taxonomy upper p"
    and "2 \<le> length databases * length tables"
    and "execute_all exec
           (spec_privilege_diff privileges grantee (scope_targets databases tables) replace False)
           s = Inr s'"
  shows "\<exists>r. grants_func upper exec s grantee privileges databases tables replace False = Inr (r, s')
           \<and> length (run_queries r) = length databases * length tables
           \<and> filter (\<lambda>i. carries_replace_clause (run_queries r ! i))
                [0..<length databases * length tables] = (if replace then [0] else [])
           \<and> run_queries r ! 0 =
               spec_GrantPrivileges privileges grantee (databases ! 0, tables ! 0) replace"
proof -
  let ?G = "spec_GrantPrivileges privileges grantee"
  let ?N = "length databases * length tables"
  from assms(2) obtain d ds where dbs: "databases = d # ds"
    by (cases databases) auto
  from assms(2) obtain t ts where tbs: "tables = t # ts"
    by (cases tables) auto
  define rest where "rest = map (Pair d) ts @ List.product ds (t # ts)"
  have targets: "scope_targets databases tables = (d, t) # rest"
    by (simp add: scope_targets_def dbs tbs rest_def)
  define qs where "qs = ?G (d, t) replace # map (\<lambda>x. ?G x False) rest"
  have plan: "spec_privilege_diff privileges grantee (scope_targets databases tables) replace False = qs"
    by (simp add: targets spec_privilege_diff_grant_Cons qs_def)
  have "length (scope_targets databases tables) = ?N"
    by (simp add: scope_targets_def)
  with targets have len: "length qs = ?N"
    by (simp add: qs_def)
  have call: "grants_func upper exec s grantee privileges databases tables replace False =
     Inr (\<lparr>changed = True, run_queries = qs, msg = Some ''GRANTS EXECUTED'',
           error = None, failed = False\<rparr>, s')"
    using grants_func_valid[OF assms(1) assms(3)] plan by (simp add: targets)
  have head: "carries_replace_clause (qs ! 0) = replace"
    by (cases replace) (simp_all add: qs_def carries_with_replace not_carries_without_replace)
  have tail: "\<not> carries_replace_clause (qs ! i)" if "i \<in> set [Suc 0..<?N]" for i
  proof -
    from that len have "0 < i" and "i - 1 < length rest"
      by (auto simp: qs_def)
    then have "qs ! i = ?G (rest ! (i - 1)) False"
      by (simp add: qs_def nth_Cons')
    then show ?thesis
      by (simp add: not_carries_without_replace)
  qed
  have "0 < ?N" using assms(2) by linarith
  then have upt: "[0..<?N] = 0 # [Suc 0..<?N]"
    by (rule upt_conv_Cons)
  have positions: "filter (\<lambda>i. carries_replace_clause (qs ! i)) [0..<?N] =
      (if replace then [0] else [])"
    using head tail by (simp add: upt filter_empty_conv del: upt_Suc)
  have first: "qs ! 0 = ?G (databases ! 0, tables ! 0) replace"
    by (simp add: qs_def dbs tbs)
  from call len positions first show ?thesis by simp
qed

text \<open>Two databases and one table with \<open>replace\<close> set: of the two statements only the
  one for \<open>d1.t1\<close> carries the clause.\<close>

theorem replace_single_shot_witness:
  "\<exists>r. grants_func ascii_upper accepting example_server ''reader'' [''select''] [''d1'', ''d2'']
          [''t1''] True False = Inr (r, example_server)
       \<and> length (run_queries r) = 2
       \<and> filter (\<lambda>i. carries_replace_clause (run_queries r ! i)) [0..<2] = [0]
       \<and> run_queries r ! 0 =
           ''GRANT select on d1.t1 to 'reader'' @ apostrophe @ '' WITH REPLACE OPTION''"
proof -
  have valid: "\<forall>p\<in>set [''select'']. in_taxonomy ascii_upper p"
    by (simp add: in_taxonomy_select)
  have two: "2 \<le> length [''d1'', ''d2''] * length [''t1'']"
    by simp
  show ?thesis
    using replace_single_shot[where grantee = "''reader''" and replace = True,
        OF valid two execute_all_accepting, of example_server]
    by (simp add: spec_GrantPrivileges_def replace_clause_def numeral_2_eq_2)
qed

subsection \<open>C5: an unknown privilege aborts before anything is planned\<close>

text \<open>
  Claim C5. A name is outside the taxonomy when what \<open>str.upper()\<close> returns for it is
  not among the applicable grants and the name is not \<open>dictGet\<close>; the theorem holds for
  every function \<open>upper\<close> in the place of \<open>str.upper()\<close>, the Unicode-aware one of the
  runtime included. When the requested privileges contain a name outside the taxonomy, let
  \<open>bad\<close> be the first such name (every name before it passes validation; what follows it
  is arbitrary). Then \<open>grants_func\<close> returns the failed result: \<open>failed\<close> is set, the
  error text names the offending privilege, as \<open>upper\<close> returns it, and lists the
  applicable grants, \<open>changed\<close> is false and the list of executed statements is empty.
  The result is the same for every gateway, every database list, every table list and both
  flags, and the server is returned as it was: nothing is validated after \<open>bad\<close>, no
  scope is processed and no statement is handed to the server.
\<close>

theorem unknown_privilege_aborts:
  assumes "privileges = valid @ bad # rest"
    and "\<forall>p\<in>set valid. in_taxonomy upper p"
    and "\<not> in_taxonomy upper bad"
  shows "grants_func upper exec s grantee privileges databases tables replace revoke =
           Inr (\<lparr>changed = False, run_queries = [], msg = None,
                 error = Some (upper bad @ '' not in applicable grants: '' @
                               join '', '' applicable_grants @ ''.''),
                 failed = True\<rparr>, s)"
  using check_grants_first_bad[OF assms(2) assms(3), of rest]
  by (simp add: grants_func_def assms(1) unsupported_privilege_error_def)

text \<open>The second of three requested privileges is unknown; the gateway would refuse any
  statement, and none reaches it.\<close>

theorem unknown_privilege_aborts_witness:
  "grants_func ascii_upper refusing example_server ''reader'' [''select'', ''bogus'', ''worse'']
     [''d1'', ''d2''] [''t1''] True False =
   Inr (\<lparr>changed = False, run_queries = [], msg = None,
         error = Some (''BOGUS not in applicable grants: CREATE FUNCTION, DROP FUNCTION, '' @
           ''RELOAD DICTIONARY, KILL QUERY, MYSQL, CLUSTER, CREATE DATABASE, DROP DATABASE, '' @
           ''ALL, SELECT, SHOW, dictGet, INSERT, UPDATE, DELETE, ALTER, ALTER TABLE, '' @
           ''ALTER COLUMN, ALTER CONSTRAINT, ALTER INDEX, ALTER VIEW, ALTER TTL, CREATE, '' @
           ''CREATE TABLE, CREATE VIEW, CREATE DICTIONARY, DROP, DROP TABLE, DROP VIEW, '' @
           ''DROP DICTIONARY, TRUNCATE, OPTIMIZE.''),
         failed = True\<rparr>, example_server)"
proof -
  have split: "[''select'', ''bogus'', ''worse''] = [''select''] @ ''bogus'' # [''worse'']"
    by simp
  have valid: "\<forall>p\<in>set [''select'']. in_taxonomy ascii_upper p"
    by (simp add: in_taxonomy_select)
  show ?thesis
    using unknown_privilege_aborts[OF split valid not_in_taxonomy_bogus,
        of refusing example_server "''reader''" "[''d1'', ''d2'']" "[''t1'']" True False]
    by (simp add: ascii_upper_def ascii_upper_char_def applicable_grants_def
      system_level_grants_def database_level_grants_def table_level_grants_def)
qed

subsection \<open>C7: revoking touches held roles only\<close>

text \<open>
  Claim C7. For a grantee that exists, with \<open>held\<close> the roles observed for it, and on a
  server that accepts the statements, \<open>grant_roles_func\<close> with \<open>revoke\<close> set returns one
  REVOKE statement for each listed role that is held, in list order, and nothing for a
  listed role that is not held; \<open>changed\<close> is set exactly when some listed role is held.
  When none of the listed roles is held, the result has \<open>changed\<close> false and no
  statements, and the server is as it was.
\<close>

theorem revoke_held_roles_only:
  assumes "ch_user_exists s grantee"
    and "held = granted_role_names s grantee"
    and "execute_all exec
           (map (spec_RevokeRoles grantee) (filter (\<lambda>role. role \<in> set held) roles)) s = Inr s'"
  shows "grant_roles_func exec s grantee roles roles_init replace True =
           Inr (\<lparr>changed = (set roles \<inter> set held \<noteq> {}),
                 run_queries =
                   map (spec_RevokeRoles grantee) (filter (\<lambda>role. role \<in> set held) roles),
                 user_status = None, grant_roles = roles, revoke_grants = True,
                 replace_grants = replace\<rparr>, s')
         \<and> (set roles \<inter> set held = {} \<longrightarrow>
              grant_roles_func exec s grantee roles roles_init replace True =
                Inr (\<lparr>changed = False, run_queries = [], user_status = None,
                      grant_roles = roles, revoke_grants = True,
                      replace_grants = replace\<rparr>, s))"
proof -
  let ?plan = "map (spec_RevokeRoles grantee) (filter (\<lambda>role. role \<in> set held) roles)"
  have plan: "roles_query_list grantee roles roles_init replace True
                (granted_role_names s grantee)
                (set roles \<subseteq> set (granted_role_names s grantee)) = ?plan"
    by (simp add: roles_query_list_eq assms(2))
  have nonempty: "(?plan \<noteq> []) = (set roles \<inter> set held \<noteq> {})"
    by (auto simp: filter_empty_conv)
  have first: "grant_roles_func exec s grantee roles roles_init replace True =
           Inr (\<lparr>changed = (set roles \<inter> set held \<noteq> {}), run_queries = ?plan,
                 user_status = None, grant_roles = roles, revoke_grants = True,
                 replace_grants = replace\<rparr>, s')"
    using grant_roles_func_exists[of s grantee exec roles roles_init replace True s']
      assms(1) assms(3) nonempty
    by (simp add: plan)
  have second: "grant_roles_func exec s grantee roles roles_init replace True =
                Inr (\<lparr>changed = False, run_queries = [], user_status = None,
                      grant_roles = roles, revoke_grants = True,
                      replace_grants = replace\<rparr>, s)"
    if none: "set roles \<inter> set held = {}"
  proof -
    from none nonempty have empty: "?plan = []" by simp
    with assms(3) have "s' = s" by simp
    with first none empty show ?thesis by simp
  qed
  from first second show ?thesis by blast
qed

text \<open>\<open>reader\<close> holds \<open>r1\<close>: revoking \<open>r1, r2\<close> revokes \<open>r1\<close> alone, and revoking
  \<open>r2, r3\<close> hands nothing to a gateway that would have refused it.\<close>

theorem revoke_held_roles_only_witness:
  "grant_roles_func accepting example_server ''reader'' [''r1'', ''r2''] False False True =
     Inr (\<lparr>changed = True, run_queries = [''REVOKE r1 from 'reader'' @ apostrophe],
           user_status = None, grant_roles = [''r1'', ''r2''], revoke_grants = True,
           replace_grants = False\<rparr>, example_server)
   \<and> grant_roles_func refusing example_server ''reader'' [''r2'', ''r3''] False False True =
     Inr (\<lparr>changed = False, run_queries = [], user_status = None,
           grant_roles = [''r2'', ''r3''], revoke_grants = True,
           replace_grants = False\<rparr>, example_server)"
proof -
  have held: "[''r1''] = granted_role_names example_server ''reader''"
    by (simp add: example_server_roles)
  have none: "execute_all refusing
           (map (spec_RevokeRoles ''reader'')
              (filter (\<lambda>role. role \<in> set [''r1'']) [''r2'', ''r3''])) example_server =
         Inr example_server"
    by simp
  show ?thesis
    using revoke_held_roles_only[OF example_server_reader held execute_all_accepting,
        of "[''r1'', ''r2'']" False False]
      revoke_held_roles_only[OF example_server_reader held none, of False False]
    by (simp add: spec_RevokeRoles_def)
qed

subsection \<open>C3: role creation covers every listed role\<close>

text \<open>
  Claim C3 says that CreateRole is emitted for exactly the listed roles that are not held.
  The code does otherwise: \<open>reader\<close> holds \<open>r1\<close>, the listed roles are \<open>r1\<close> and
  \<open>r2\<close>, role creation is asked for, and the run creates \<open>r1\<close> as well as \<open>r2\<close>.
\<close>

theorem create_role_for_held_role_counterexample:
  "grant_roles_func accepting example_server ''reader'' [''r1'', ''r2''] True False False =
     Inr (\<lparr>changed = True,
           run_queries =
             [''CREATE ROLE IF NOT EXISTS r1'', ''CREATE ROLE IF NOT EXISTS r2'',
              ''GRANT r1, r2 to 'reader'' @ apostrophe],
           user_status = Some ([''r1''], False), grant_roles = [''r1'', ''r2''],
           revoke_grants = False, replace_grants = False\<rparr>, example_server)"
  by (simp add: grant_roles_func_def get_user_roles_def ch_user_exists_def
      granted_role_names_def example_server_def roles_query_list_def accepting_def Let_def)

text \<open>
  Claim C3, amended. For a grantee that exists, with \<open>held\<close> the roles observed for it,
  with \<open>revoke\<close> unset and on a server that accepts the statements: when role creation is
  asked for and some listed role is not held, \<open>grant_roles_func\<close> emits
  \<open>CREATE ROLE IF NOT EXISTS\<close> for every listed role, in list order, whether or not the
  role is held; otherwise it emits no CreateRole. The GRANT follows: with the replace
  clause when \<open>replace\<close> is set, without it when \<open>replace\<close> is unset and some listed
  role is not held, and not at all when \<open>replace\<close> is unset and all are held.
\<close>

theorem create_role_for_every_listed_role:
  assumes "ch_user_exists s grantee"
    and "held = granted_role_names s grantee"
    and "execute_all exec
           ((if roles_init \<and> \<not> set roles \<subseteq> set held then map spec_CreateRole roles else []) @
            (if replace then [spec_GrantRoles roles grantee True]
             else if \<not> set roles \<subseteq> set held then [spec_GrantRoles roles grantee False]
             else [])) s = Inr s'"
  shows "grant_roles_func exec s grantee roles roles_init replace False =
           Inr (\<lparr>changed = (replace \<or> \<not> set roles \<subseteq> set held),
                 run_queries =
                   (if roles_init \<and> \<not> set roles \<subseteq> set held then map spec_CreateRole roles
                    else []) @
                   (if replace then [spec_GrantRoles roles grantee True]
                    else if \<not> set roles \<subseteq> set held
                    then [spec_GrantRoles roles grantee False]
                    else []),
                 user_status = Some (held, set roles \<subseteq> set held), grant_roles = roles,
                 revoke_grants = False, replace_grants = replace\<rparr>, s')"
proof -
  let ?plan = "(if roles_init \<and> \<not> set roles \<subseteq> set held then map spec_CreateRole roles else []) @
            (if replace then [spec_GrantRoles roles grantee True]
             else if \<not> set roles \<subseteq> set held then [spec_GrantRoles roles grantee False]
             else [])"
  have plan: "roles_query_list grantee roles roles_init replace False
                (granted_role_names s grantee)
                (set roles \<subseteq> set (granted_role_names s grantee)) = ?plan"
    by (simp add: roles_query_list_eq assms(2))
  have nonempty: "(?plan \<noteq> []) = (replace \<or> \<not> set roles \<subseteq> set held)"
    by auto
  show ?thesis
    using grant_roles_func_exists[of s grantee exec roles roles_init replace False s']
      assms(1) assms(3) nonempty
    unfolding plan
    by (simp add: assms(2))
qed

text \<open>With \<open>r1\<close> held and \<open>r1, r2\<close> listed both roles are created; with \<open>r1\<close> alone
  listed nothing is emitted.\<close>

theorem create_role_for_every_listed_role_witness:
  "grant_roles_func accepting example_server ''reader'' [''r1'', ''r2''] True False False =
     Inr (\<lparr>changed = True,
           run_queries =
             [''CREATE ROLE IF NOT EXISTS r1'', ''CREATE ROLE IF NOT EXISTS r2'',
              ''GRANT r1, r2 to 'reader'' @ apostrophe],
           user_status = Some ([''r1''], False), grant_roles = [''r1'', ''r2''],
           revoke_grants = False, replace_grants = False\<rparr>, example_server)
   \<and> grant_roles_func refusing example_server ''reader'' [''r1''] True False False =
     Inr (\<lparr>changed = False, run_queries = [],
           user_status = Some ([''r1''], True), grant_roles = [''r1''],
           revoke_grants = False, replace_grants = False\<rparr>, example_server)"
proof -
  have held: "[''r1''] = granted_role_names example_server ''reader''"
    by (simp add: example_server_roles)
  have none: "execute_all refusing
           ((if True \<and> \<not> set [''r1''] \<subseteq> set [''r1''] then map spec_CreateRole [''r1''] else []) @
            (if False then [spec_GrantRoles [''r1''] ''reader'' True]
             else if \<not> set [''r1''] \<subseteq> set [''r1'']
             then [spec_GrantRoles [''r1''] ''reader'' False]
             else [])) example_server = Inr example_server"
    by simp
  show ?thesis
    using create_role_for_every_listed_role[where roles_init = True
          and roles = "[''r1'', ''r2'']" and replace = False,
        OF example_server_reader held execute_all_accepting]
      create_role_for_every_listed_role[OF example_server_reader held none]
    by (simp add: spec_CreateRole_def spec_GrantRoles_def)
qed

subsection \<open>C1: which reconciliations are idempotent\<close>

text \<open>
  Claim C1 says that a second privilege-grant reconciliation with the same inputs reports
  no change and executes nothing. The code does otherwise: \<open>grants_func\<close> never observes
  the privileges a grantee has, so the second of two runs in sequence executes the same
  GRANT and reports a change again. The same holds for a role assignment with \<open>replace\<close>
  set, whose GRANT is emitted whatever is held: the second run, on a server where \<open>r2\<close>
  has become the only role of \<open>reader\<close>, executes it again.
\<close>

theorem privilege_grant_repeats_counterexample:
  "second_run
     (\<lambda>s. grants_func ascii_upper accepting s ''reader'' [''select''] [''d1''] [''t1''] False False)
     example_server =
   Inr (\<lparr>changed = True, run_queries = [''GRANT select on d1.t1 to 'reader'' @ apostrophe],
         msg = Some ''GRANTS EXECUTED'', error = None, failed = False\<rparr>, example_server)
   \<and> second_run
     (\<lambda>s. grant_roles_func replacing_by_r2 s ''reader'' [''r2''] False True False)
     example_server =
   Inr (\<lparr>changed = True,
         run_queries = [''GRANT r2 to 'reader'' @ apostrophe @ '' WITH REPLACE OPTION''],
         user_status = Some ([''r2''], True), grant_roles = [''r2''],
         revoke_grants = False, replace_grants = True\<rparr>,
        example_server\<lparr>system_role_grants := [(''reader'', ''r2'')]\<rparr>)"
proof -
  have privileges: "second_run
     (\<lambda>s. grants_func ascii_upper accepting s ''reader'' [''select''] [''d1''] [''t1''] False False)
     example_server =
   Inr (\<lparr>changed = True, run_queries = [''GRANT select on d1.t1 to 'reader'' @ apostrophe],
         msg = Some ''GRANTS EXECUTED'', error = None, failed = False\<rparr>, example_server)"
    by (simp add: second_run_def grants_func_def accepting_def ascii_upper_def ascii_upper_char_def
        applicable_grants_def system_level_grants_def database_level_grants_def
        table_level_grants_def)
  have roles: "second_run
     (\<lambda>s. grant_roles_func replacing_by_r2 s ''reader'' [''r2''] False True False)
     example_server =
   Inr (\<lparr>changed = True,
         run_queries = [''GRANT r2 to 'reader'' @ apostrophe @ '' WITH REPLACE OPTION''],
         user_status = Some ([''r2''], True), grant_roles = [''r2''],
         revoke_grants = False, replace_grants = True\<rparr>,
        example_server\<lparr>system_role_grants := [(''reader'', ''r2'')]\<rparr>)"
    by (simp add: second_run_def grant_roles_func_def get_user_roles_def ch_user_exists_def
        granted_role_names_def example_server_def roles_query_list_def replacing_by_r2_def
        Let_def)
  from privileges roles show ?thesis by simp
qed

text \<open>
  Claim C1, amended: idempotence of the role-assignment reconciliation with \<open>replace\<close>
  unset. Let the first call succeed and leave the server in state \<open>s1\<close>, and let its
  statements have taken effect there: the grantee exists and, on the grant path, holds
  every listed role, on the revoke path, holds none of them. Then the second call with the
  same inputs, started from \<open>s1\<close>, succeeds, reports \<open>changed\<close> false, executes no
  statements and leaves the server in \<open>s1\<close>.
\<close>

theorem role_reconciliation_idempotent:
  assumes "grant_roles_func exec s grantee roles roles_init False revoke = Inr (first, s1)"
    and "ch_user_exists s1 grantee"
    and "if revoke then set roles \<inter> set (granted_role_names s1 grantee) = {}
         else set roles \<subseteq> set (granted_role_names s1 grantee)"
  shows "second_run (\<lambda>s. grant_roles_func exec s grantee roles roles_init False revoke) s =
           Inr (\<lparr>changed = False, run_queries = [],
                 user_status =
                   (if revoke then None else Some (granted_role_names s1 grantee, True)),
                 grant_roles = roles, revoke_grants = revoke, replace_grants = False\<rparr>, s1)"
proof -
  let ?held = "granted_role_names s1 grantee"
  have plan: "roles_query_list grantee roles roles_init False revoke ?held
                (set roles \<subseteq> set ?held) = []"
    using assms(3)
    by (cases revoke) (auto simp: roles_query_list_eq filter_empty_conv)
  have idle: "execute_all exec
           (roles_query_list grantee roles roles_init False revoke ?held
              (set roles \<subseteq> set ?held)) s1 = Inr s1"
    by (simp add: plan)
  have again: "grant_roles_func exec s1 grantee roles roles_init False revoke =
           Inr (\<lparr>changed = False, run_queries = [],
                 user_status = (if revoke then None else Some (?held, True)),
                 grant_roles = roles, revoke_grants = revoke, replace_grants = False\<rparr>, s1)"
    using grant_roles_func_exists[OF assms(2) idle] assms(3)
    by (simp add: plan)
  show ?thesis
    by (simp add: second_run_def assms(1) again)
qed

text \<open>\<open>reader\<close> holds \<open>r1\<close> and is granted \<open>r2\<close>: the first run executes the GRANT,
  the second finds both roles and does nothing.\<close>

theorem role_reconciliation_idempotent_witness:
  "second_run (\<lambda>s. grant_roles_func granting_r2 s ''reader'' [''r2''] False False False)
     example_server =
   Inr (\<lparr>changed = False, run_queries = [],
         user_status = Some ([''r1'', ''r2''], True), grant_roles = [''r2''],
         revoke_grants = False, replace_grants = False\<rparr>,
        example_server\<lparr>system_role_grants := [(''reader'', ''r1''), (''reader'', ''r2'')]\<rparr>)"
proof -
  let ?s1 = "example_server\<lparr>system_role_grants := [(''reader'', ''r1''), (''reader'', ''r2'')]\<rparr>"
  have first: "grant_roles_func granting_r2 example_server ''reader'' [''r2''] False False False =
     Inr (\<lparr>changed = True, run_queries = [''GRANT r2 to 'reader'' @ apostrophe],
           user_status = Some ([''r1''], False), grant_roles = [''r2''],
           revoke_grants = False, replace_grants = False\<rparr>, ?s1)"
    by (simp add: grant_roles_func_def get_user_roles_def ch_user_exists_def
        granted_role_names_def example_server_def roles_query_list_def granting_r2_def Let_def)
  have known: "ch_user_exists ?s1 ''reader''"
    by (simp add: ch_user_exists_def example_server_def)
  have effect: "if False then set [''r2''] \<inter> set (granted_role_names ?s1 ''reader'') = {}
         else set [''r2''] \<subseteq> set (granted_role_names ?s1 ''reader'')"
    by (simp add: granted_role_names_def)
  show ?thesis
    using role_reconciliation_idempotent[OF first known effect]
    by (simp add: granted_role_names_def)
qed

subsection \<open>C6: one mode per run\<close>

text \<open>
  Claim C6 says that every call with both a role list and a privilege list ends in the
  configuration error, and likewise every call with neither. The code does otherwise in
  check mode: \<open>main\<close> leaves through \<open>exit_json\<close> with the default result before it
  looks at the two lists.
\<close>

theorem exclusive_mode_check_mode_counterexample:
  "main ascii_upper refusing example_server
     (example_params\<lparr>check_mode := True, param_grant_roles := [''r1'']\<rparr>) =
     (ExitDefault, example_server)
   \<and> main ascii_upper refusing example_server
     (example_params\<lparr>check_mode := True, param_grants := []\<rparr>) =
     (ExitDefault, example_server)"
  by (simp add: main_def example_params_def)

text \<open>
  Claim C6, amended. For a run with the client library installed and not in check mode:
  with both lists non-empty \<open>main\<close> fails with the message that only one of the two may be
  defined; with both lists empty it fails with the message that none is defined. In check
  mode, with the library installed, the run ends with the default result whatever the two
  lists hold; without the library it fails with the message that the driver is required.
  In each of these four cases the run leaves the server exactly as it found it, and it does
  so for every gateway, also one that changes the server at every statement or raises at
  every statement: no statement is executed. A run that ends with the result of a role
  reconciliation had a non-empty role list and an empty privilege list, and a run that ends
  with the result of a privilege reconciliation had a non-empty privilege list and an empty
  role list.
\<close>

theorem exclusive_mode:
  "(driver_installed params \<and> \<not> check_mode params \<and>
    param_grant_roles params \<noteq> [] \<and> param_grants params \<noteq> [] \<longrightarrow>
      main upper exec s params =
        (FailJson ''Only one of parameters 'grant_roles' OR 'grants' must be defined.'', s))
   \<and> (driver_installed params \<and> \<not> check_mode params \<and>
       param_grant_roles params = [] \<and> param_grants params = [] \<longrightarrow>
         main upper exec s params = (FailJson ''No any grants or roles are defined'', s))
   \<and> (driver_installed params \<and> check_mode params \<longrightarrow>
         main upper exec s params = (ExitDefault, s))
   \<and> (\<not> driver_installed params \<longrightarrow>
         main upper exec s params =
           (FailJson ''The clickhouse-driver module is required to install to host'', s))
   \<and> (fst (main upper exec s params) = ExitRoles r \<longrightarrow>
         param_grant_roles params \<noteq> [] \<and> param_grants params = [])
   \<and> (fst (main upper exec s params) = ExitGrants r' \<longrightarrow>
         param_grants params \<noteq> [] \<and> param_grant_roles params = [])"
proof -
  have both: "main upper exec s params =
        (FailJson ''Only one of parameters 'grant_roles' OR 'grants' must be defined.'', s)"
    if "driver_installed params \<and> \<not> check_mode params \<and>
        param_grant_roles params \<noteq> [] \<and> param_grants params \<noteq> []"
    using that by (simp add: main_def)
  have neither: "main upper exec s params =
        (FailJson ''No any grants or roles are defined'', s)"
    if "driver_installed params \<and> \<not> check_mode params \<and>
        param_grant_roles params = [] \<and> param_grants params = []"
    using that by (simp add: main_def)
  have dry: "main upper exec s params = (ExitDefault, s)"
    if "driver_installed params \<and> check_mode params"
    using that by (simp add: main_def)
  have missing: "main upper exec s params =
        (FailJson ''The clickhouse-driver module is required to install to host'', s)"
    if "\<not> driver_installed params"
    using that by (simp add: main_def)
  have roles_run: "param_grant_roles params \<noteq> [] \<and> param_grants params = []"
    if "fst (main upper exec s params) = ExitRoles r"
    using that
    by (auto simp: main_def Let_def split: if_splits sum.splits exn.splits prod.splits
        elim: fail_of.elims)
  have grants_run: "param_grants params \<noteq> [] \<and> param_grant_roles params = []"
    if "fst (main upper exec s params) = ExitGrants r'"
    using that
    by (auto simp: main_def Let_def split: if_splits sum.splits exn.splits prod.splits
        elim: fail_of.elims)
  from both neither dry missing roles_run grants_run show ?thesis by blast
qed

text \<open>The example parameters with a role list added, with the privilege list emptied, and
  with a role list added in check mode. The gateway would change the server at any
  statement; the server comes back as it was.\<close>

theorem exclusive_mode_witness:
  "main ascii_upper granting_r2 example_server
     (example_params\<lparr>param_grant_roles := [''r1'']\<rparr>) =
     (FailJson ''Only one of parameters 'grant_roles' OR 'grants' must be defined.'',
      example_server)
   \<and> main ascii_upper granting_r2 example_server (example_params\<lparr>param_grants := []\<rparr>) =
     (FailJson ''No any grants or roles are defined'', example_server)
   \<and> main ascii_upper granting_r2 example_server
     (example_params\<lparr>check_mode := True, param_grant_roles := [''r1'']\<rparr>) =
     (ExitDefault, example_server)"
  using exclusive_mode[of "example_params\<lparr>param_grant_roles := [''r1'']\<rparr>"
      ascii_upper granting_r2 example_server]
    exclusive_mode[of "example_params\<lparr>param_grants := []\<rparr>"
      ascii_upper granting_r2 example_server]
    exclusive_mode[of "example_params\<lparr>check_mode := True, param_grant_roles := [''r1'']\<rparr>"
      ascii_upper granting_r2 example_server]
  by (simp add: example_params_def)

subsection \<open>C4: the cluster flag\<close>

text \<open>
  Claim C4 says that with the cluster flag set every statement carries the cluster clause.
  \<open>main\<close> reads \<open>on_cluster\<close> and \<open>cluster_name\<close> and passes them to neither
  reconciliation: with the flag set and the cluster named \<open>default\<close>, the run executes the
  GRANT without any cluster clause.
\<close>

theorem cluster_clause_missing:
  "main ascii_upper accepting example_server
     (example_params\<lparr>param_on_cluster := True, param_cluster_name := ''default''\<rparr>) =
   (ExitGrants \<lparr>changed = True,
                run_queries = [''GRANT select on default.* to 'reader'' @ apostrophe],
                msg = Some ''GRANTS EXECUTED'', error = None, failed = False\<rparr>,
    example_server)"
  by (simp add: main_def example_params_def grants_func_def accepting_def ascii_upper_def
      ascii_upper_char_def applicable_grants_def system_level_grants_def
      database_level_grants_def table_level_grants_def)

subsection \<open>C9: the steps of creating or updating a user\<close>

text \<open>
  Claim C9. On a server that accepts the statements, \<open>create_update_user\<close> returns the
  concatenation of four parts, in this order, each there or not by its own test alone:
  CreateUser when the principal does not exist; AlterQuota when a quota is named and no
  quota of that name lists the principal; AlterProfile when a profile is named and not
  assigned; GrantRoles when roles are listed and not all held. \<open>changed\<close> is set exactly
  when a statement was emitted. Hence, for a principal that does not exist (and under whose
  name the server therefore records nothing), with a quota, a profile and a non-empty role
  list, the statements are exactly CreateUser, AlterQuota, AlterProfile, GrantRoles; and
  for a user who exists and lacks only the quota, the AlterQuota statement alone.
\<close>

theorem user_lifecycle_composition:
  assumes "execute_all exec (spec_user_diff s user password roles quota profile) s = Inr s'"
  shows "\<exists>r. create_update_user exec s user password roles quota profile = Inr (r, s')
           \<and> changed r = (run_queries r \<noteq> [])
           \<and> run_queries r =
               (if \<not> ch_user_exists s user then [spec_CreateUser user password] else []) @
               (if quota \<noteq> [] \<and> \<not> has_quota s user quota
                then [spec_AlterQuota quota (quota_members s quota @ [user])] else []) @
               (if profile \<noteq> [] \<and> \<not> has_profile s user profile
                then [spec_AlterProfile user profile] else []) @
               (if roles \<noteq> [] \<and> \<not> has_roles s user roles
                then [spec_GrantRolesToUser roles user] else [])
           \<and> (\<not> ch_user_exists s user \<and> holds_nothing s user \<and>
                quota \<noteq> [] \<and> profile \<noteq> [] \<and> roles \<noteq> [] \<longrightarrow>
                run_queries r =
                  [spec_CreateUser user password,
                   spec_AlterQuota quota (quota_members s quota @ [user]),
                   spec_AlterProfile user profile,
                   spec_GrantRolesToUser roles user])
           \<and> (ch_user_exists s user \<and> quota \<noteq> [] \<and> \<not> has_quota s user quota \<and>
                (profile = [] \<or> has_profile s user profile) \<and>
                (roles = [] \<or> has_roles s user roles) \<longrightarrow>
                run_queries r = [spec_AlterQuota quota (quota_members s quota @ [user])])"
  using create_update_user_accepted[OF assms] holds_nothing_unsatisfied[of s user]
  by (auto simp: spec_user_diff_def)

text \<open>The scenario of the claim on a server that does not know \<open>u\<close>, and the same
  request once \<open>u\<close> exists with profile and role but without the quota.\<close>

theorem user_lifecycle_composition_witness:
  "(\<exists>r. create_update_user accepting fresh_server ''u'' ''pw'' [''r1''] ''q1'' ''p1'' =
          Inr (r, fresh_server)
        \<and> run_queries r =
            [''CREATE USER u IDENTIFIED WITH sha256_password BY 'pw'' @ apostrophe,
             ''ALTER QUOTA q1 to alice, bob, u'',
             ''ALTER USER u SETTINGS PROFILE p1'',
             ''GRANT r1 to u''])
   \<and> (\<exists>r. create_update_user accepting settled_server ''u'' ''pw'' [''r1''] ''q1'' ''p1'' =
          Inr (r, settled_server)
        \<and> run_queries r = [''ALTER QUOTA q1 to alice, bob, u''])"
proof -
  have absent: "\<not> ch_user_exists fresh_server ''u'' \<and> holds_nothing fresh_server ''u'' \<and>
      ''q1'' \<noteq> [] \<and> ''p1'' \<noteq> [] \<and> [''r1''] \<noteq> []"
    by (simp add: ch_user_exists_def holds_nothing_def fresh_server_def)
  have lacking: "ch_user_exists settled_server ''u'' \<and> ''q1'' \<noteq> [] \<and>
      \<not> has_quota settled_server ''u'' ''q1'' \<and>
      (''p1'' = [] \<or> has_profile settled_server ''u'' ''p1'') \<and>
      ([''r1''] = [] \<or> has_roles settled_server ''u'' [''r1''])"
    by (simp add: ch_user_exists_def has_quota_def has_profile_def has_roles_def
        settled_server_def)
  have members: "quota_members fresh_server ''q1'' = [''alice'', ''bob'']"
      "quota_members settled_server ''q1'' = [''alice'', ''bob'']"
    by (simp_all add: quota_members_def fresh_server_def settled_server_def)
  from user_lifecycle_composition[OF execute_all_accepting,
      of fresh_server "''u''" "''pw''" "[''r1'']" "''q1''" "''p1''"] absent
  obtain r1 where
    "create_update_user accepting fresh_server ''u'' ''pw'' [''r1''] ''q1'' ''p1'' =
       Inr (r1, fresh_server)"
    "run_queries r1 =
       [spec_CreateUser ''u'' ''pw'',
        spec_AlterQuota ''q1'' (quota_members fresh_server ''q1'' @ [''u'']),
        spec_AlterProfile ''u'' ''p1'', spec_GrantRolesToUser [''r1''] ''u'']"
    by blast
  then have first: "\<exists>r. create_update_user accepting fresh_server ''u'' ''pw'' [''r1''] ''q1'' ''p1'' =
          Inr (r, fresh_server)
        \<and> run_queries r =
            [''CREATE USER u IDENTIFIED WITH sha256_password BY 'pw'' @ apostrophe,
             ''ALTER QUOTA q1 to alice, bob, u'',
             ''ALTER USER u SETTINGS PROFILE p1'',
             ''GRANT r1 to u'']"
    by (simp add: members spec_CreateUser_def spec_AlterQuota_def spec_AlterProfile_def
        spec_GrantRolesToUser_def)
  from user_lifecycle_composition[OF execute_all_accepting,
      of settled_server "''u''" "''pw''" "[''r1'']" "''q1''" "''p1''"] lacking
  obtain r2 where
    "create_update_user accepting settled_server ''u'' ''pw'' [''r1''] ''q1'' ''p1'' =
       Inr (r2, settled_server)"
    "run_queries r2 = [spec_AlterQuota ''q1'' (quota_members settled_server ''q1'' @ [''u''])]"
    by blast
  then have second: "\<exists>r. create_update_user accepting settled_server ''u'' ''pw'' [''r1''] ''q1'' ''p1'' =
          Inr (r, settled_server)
        \<and> run_queries r = [''ALTER QUOTA q1 to alice, bob, u'']"
    by (simp add: members spec_AlterQuota_def)
  from first second show ?thesis by blast
qed

subsection \<open>C10: ALTER QUOTA keeps the quota's members\<close>

text \<open>
  Claim C10. On a server that accepts the statements, the ALTER QUOTA statements among
  those \<open>create_update_user\<close> executes are: none, when no quota is named or a quota of that
  name already lists the principal; otherwise exactly one, whose member list is the
  observed member list of the named quota, in observed order, followed by the principal as
  last element. The observed member list is empty when the server has no quota of that
  name, and then the list is the principal alone.
\<close>

theorem alter_quota_keeps_members:
  assumes "execute_all exec (spec_user_diff s user password roles quota profile) s = Inr s'"
  shows "\<exists>r. create_update_user exec s user password roles quota profile = Inr (r, s')
           \<and> filter (prefix ''ALTER QUOTA '') (run_queries r) =
               (if quota \<noteq> [] \<and> \<not> has_quota s user quota
                then [''ALTER QUOTA '' @ quota @ '' to '' @
                      join '', '' (quota_members s quota @ [user])]
                else [])"
  using create_update_user_accepted[OF assms]
  by (simp add: alter_quota_filter spec_AlterQuota_def)


text \<open>\<open>u\<close> joins \<open>q1\<close> after \<open>alice\<close> and \<open>bob\<close>; \<open>u\<close> is alone in the unknown
  \<open>q9\<close>; \<open>bob\<close>, already listed in \<open>q1\<close>, gets no statement.\<close>

theorem alter_quota_keeps_members_witness:
  "(\<exists>r. create_update_user accepting fresh_server ''u'' ''pw'' [''r1''] ''q1'' ''p1'' =
          Inr (r, fresh_server)
        \<and> filter (prefix ''ALTER QUOTA '') (run_queries r) =
            [''ALTER QUOTA q1 to alice, bob, u''])
   \<and> (\<exists>r. create_update_user accepting fresh_server ''u'' ''pw'' [] ''q9'' [] =
          Inr (r, fresh_server)
        \<and> filter (prefix ''ALTER QUOTA '') (run_queries r) = [''ALTER QUOTA q9 to u''])
   \<and> (\<exists>r. create_update_user accepting fresh_server ''bob'' ''pw'' [] ''q1'' [] =
          Inr (r, fresh_server)
        \<and> filter (prefix ''ALTER QUOTA '') (run_queries r) = [])"
proof -
  have members: "quota_members fresh_server ''q1'' = [''alice'', ''bob'']"
      "quota_members fresh_server ''q9'' = []"
    by (simp_all add: quota_members_def fresh_server_def)
  have listed: "\<not> has_quota fresh_server ''u'' ''q1''" "\<not> has_quota fresh_server ''u'' ''q9''"
      "has_quota fresh_server ''bob'' ''q1''"
    by (simp_all add: has_quota_def fresh_server_def)
  show ?thesis
    using alter_quota_keeps_members[OF execute_all_accepting,
        of fresh_server "''u''" "''pw''" "[''r1'']" "''q1''" "''p1''"]
      alter_quota_keeps_members[OF execute_all_accepting,
        of fresh_server "''u''" "''pw''" "[]" "''q9''" "[]"]
      alter_quota_keeps_members[OF execute_all_accepting,
        of fresh_server "''bob''" "''pw''" "[]" "''q1''" "[]"]
    by (simp add: members listed)
qed

end
